theory Spec2Isabelle
  imports Complex_Main
begin

section \<open>Shared data: DOM elements and JavaScript truthiness\<close>

text \<open>
  The components read three things from a DOM element: the number of its child elements
  (\<^verbatim>\<open>childElementCount\<close>), its inner width in pixels (\<^verbatim>\<open>clientWidth\<close>, an integer in
  the DOM), and the \<^verbatim>\<open>inert\<close> flag brought in by \<^verbatim>\<open>wicg-inert\<close>. A reference that
  may be \<^verbatim>\<open>null\<close> is an \<open>option\<close>.
\<close>

record HTMLElement =
  childElementCount :: nat
  clientWidth :: int
  inert :: bool

text \<open>
  An optional boolean property (\<^verbatim>\<open>pageCentered?: boolean\<close>, \<^verbatim>\<open>forceContain?: boolean\<close>)
  is \<open>None\<close> when it is \<^verbatim>\<open>undefined\<close>. \<open>truthy\<close> is what \<^verbatim>\<open>if\<close>, \<^verbatim>\<open>&&\<close> and
  \<^verbatim>\<open>? :\<close> test.
\<close>

fun truthy :: "bool option \<Rightarrow> bool" where
  "truthy None = False"
| "truthy (Some b) = b"

section \<open>Dialog.tsx\<close>

datatype DialogAnimationType = SLIDE | FADE | NONE

definition SlideAnimationType_CLOSING :: string where
  "SlideAnimationType_CLOSING = ''closing''"

definition SlideAnimationType_PAGING :: string where
  "SlideAnimationType_PAGING = ''paging''"

record DialogOptions =
  animationType :: "DialogAnimationType option"
  pageCentered :: "bool option"

text \<open>\<^verbatim>\<open>context.options?.animationType\<close> and \<^verbatim>\<open>context.options?.pageCentered\<close>.\<close>

definition options_animationType :: "DialogOptions option \<Rightarrow> DialogAnimationType option" where
  "options_animationType opts = (case opts of None \<Rightarrow> None | Some d \<Rightarrow> animationType d)"

definition options_pageCentered :: "DialogOptions option \<Rightarrow> bool option" where
  "options_pageCentered opts = (case opts of None \<Rightarrow> None | Some d \<Rightarrow> pageCentered d)"

text \<open>
  \<^verbatim>\<open>const pageCentered = context.options?.pageCentered && !forceContain\<close>: the left operand
  when it is falsy (\<^verbatim>\<open>undefined\<close> or \<^verbatim>\<open>false\<close>), the negation otherwise.
\<close>

definition Dialog_pageCentered :: "DialogOptions option \<Rightarrow> bool option \<Rightarrow> bool option" where
  "Dialog_pageCentered opts forceContain =
     (case options_pageCentered opts of
        None \<Rightarrow> None
      | Some False \<Rightarrow> Some False
      | Some True \<Rightarrow> Some (\<not> truthy forceContain))"

text \<open>
  \<^verbatim>\<open>const mountPoint = pageCentered ? document.body : context.element\<close>. The document body
  and the context's element are passed in as they are at the time of the read.
\<close>

definition Dialog_mountPoint ::
  "bool option \<Rightarrow> HTMLElement \<Rightarrow> HTMLElement option \<Rightarrow> HTMLElement option" where
  "Dialog_mountPoint pc body element = (if truthy pc then Some body else element)"

text \<open>
  The callback handed to \<^verbatim>\<open>useUnmountingAnimation\<close>: the class name of the exit animation.
  It runs when the unmount begins, so \<open>mountPoint\<close> is the mount point as it is then;
  \<^verbatim>\<open>mountPoint?.childElementCount ?? 0\<close> is 0 for a missing mount point. An
  \<^verbatim>\<open>animationType\<close> that is \<^verbatim>\<open>undefined\<close> falls to the \<^verbatim>\<open>default\<close> branch, which is
  the slide branch.
\<close>

definition getAnimatingClass ::
  "DialogAnimationType option \<Rightarrow> bool option \<Rightarrow> HTMLElement option \<Rightarrow> string" where
  "getAnimatingClass anim pc mountPoint =
     (case anim of
        Some NONE \<Rightarrow> ''''
      | Some FADE \<Rightarrow> SlideAnimationType_CLOSING
      | _ \<Rightarrow>
          if truthy pc then SlideAnimationType_CLOSING
          else if (case mountPoint of None \<Rightarrow> 0 | Some m \<Rightarrow> childElementCount m) > 1
               then SlideAnimationType_PAGING
               else SlideAnimationType_CLOSING)"

text \<open>\<^verbatim>\<open>skipUnmountAnimation\<close>, the last argument of the hook.\<close>

definition skipUnmountAnimation :: "DialogOptions option \<Rightarrow> bool" where
  "skipUnmountAnimation opts = (options_animationType opts = Some NONE)"

text \<open>
  The exit label of a Dialog rendered with the given context options, \<^verbatim>\<open>forceContain\<close>
  property, document body and context element: the three definitions above, composed the
  way the component body composes them.
\<close>

definition Dialog_exit_label ::
  "DialogOptions option \<Rightarrow> bool option \<Rightarrow> HTMLElement \<Rightarrow> HTMLElement option \<Rightarrow> string" where
  "Dialog_exit_label opts forceContain body element =
     (let pc = Dialog_pageCentered opts forceContain;
          mountPoint = Dialog_mountPoint pc body element
      in getAnimatingClass (options_animationType opts) pc mountPoint)"

text \<open>
  Click handling. \<^verbatim>\<open>onClose\<close> is the caller's callback (\<^verbatim>\<open>onClose?: () => void\<close>); what it
  does is the caller's business, so it is a transformer of the caller's state \<open>'e\<close>, and
  calling it is applying it.

  \<^verbatim>\<open>closeOnBackgroundClick\<close> is the click handler of the full-screen wrapper;
  the Modal has a handler of its own that stops the propagation of the event when the dialog
  is page-centered.
\<close>

record click_event =
  propagationStopped :: bool

definition closeOnBackgroundClick :: "bool option \<Rightarrow> ('e \<Rightarrow> 'e) option \<Rightarrow> 'e \<Rightarrow> 'e" where
  "closeOnBackgroundClick pc onClose env =
     (if truthy pc then (case onClose of None \<Rightarrow> env | Some f \<Rightarrow> f env) else env)"

definition Modal_onClick :: "bool option \<Rightarrow> click_event \<Rightarrow> click_event" where
  "Modal_onClick pc e = (if truthy pc then e\<lparr>propagationStopped := True\<rparr> else e)"

text \<open>
  A click lands either inside the Modal or on the wrapper around it (the background). The
  event bubbles from its target outwards: a click inside the Modal first meets the Modal's
  handler and then, unless stopped, the wrapper's; a click on the background meets the
  wrapper's handler only. The event that leaves the Dialog goes on to the ancestors unless
  its propagation was stopped.
\<close>

datatype click_target = InsideModal | OnBackground

definition Dialog_click ::
  "click_target \<Rightarrow> bool option \<Rightarrow> ('e \<Rightarrow> 'e) option \<Rightarrow> 'e \<Rightarrow> click_event \<times> 'e" where
  "Dialog_click target pc onClose env =
     (let e0 = \<lparr>propagationStopped = False\<rparr>;
          e1 = (case target of InsideModal \<Rightarrow> Modal_onClick pc e0 | OnBackground \<Rightarrow> e0)
      in if propagationStopped e1 then (e1, env)
         else (e1, closeOnBackgroundClick pc onClose env))"

text \<open>
  Rendering. \<^verbatim>\<open>createPortal\<close> is react-dom's: it raises when its container is not a DOM
  element, and otherwise yields a portal of the children into the container.
\<close>

datatype render_error = TargetContainerNotElement

definition createPortal :: "'v \<Rightarrow> HTMLElement option \<Rightarrow> render_error + ('v \<times> HTMLElement)" where
  "createPortal children container =
     (case container of None \<Rightarrow> Inl TargetContainerNotElement | Some c \<Rightarrow> Inr (children, c))"

text \<open>The properties the Dialog passes down the tree it renders into the portal.\<close>

record ('k, 'c) dialog_view =
  boundary_value :: "HTMLElement option"
  boundary_updateTrigger :: bool
  fullScreen_enabled :: "bool option"
  hidden_constrain :: "bool option"
  hidden_hideOverflow :: bool
  wrapper_animationType :: "DialogAnimationType option"
  modal_color :: 'k
  modal_constrain :: "bool option"
  modal_children :: 'c

text \<open>
  What the component returns: \<^verbatim>\<open>mountPoint && createPortal(..., mountPoint)\<close>. With no
  mount point the value is \<^verbatim>\<open>null\<close> (React renders nothing) and \<^verbatim>\<open>createPortal\<close> is not
  called. \<open>popoverRef\<close> is \<^verbatim>\<open>popoverRef.current\<close> and \<open>updPopover\<close> the state
  \<^verbatim>\<open>updatePopover\<close> at the time of the render.
\<close>

definition Dialog_render ::
  "DialogOptions option \<Rightarrow> bool option \<Rightarrow> HTMLElement \<Rightarrow> HTMLElement option \<Rightarrow>
   HTMLElement option \<Rightarrow> bool \<Rightarrow> 'k \<Rightarrow> 'c \<Rightarrow>
   render_error + (('k, 'c) dialog_view \<times> HTMLElement) option" where
  "Dialog_render opts forceContain body element popoverRef updPopover color children =
     (let pc = Dialog_pageCentered opts forceContain;
          mountPoint = Dialog_mountPoint pc body element
      in case mountPoint of
           None \<Rightarrow> Inr None
         | Some m \<Rightarrow>
             (case createPortal
                     \<lparr>boundary_value = popoverRef,
                      boundary_updateTrigger = updPopover,
                      fullScreen_enabled = pc,
                      hidden_constrain = pc,
                      hidden_hideOverflow = (\<not> truthy pc),
                      wrapper_animationType = options_animationType opts,
                      modal_color = color,
                      modal_constrain = pc,
                      modal_children = children\<rparr>
                     (Some m) of
                Inl err \<Rightarrow> Inl err
              | Inr portal \<Rightarrow> Inr (Some portal)))"

section \<open>Popover.tsx\<close>

text \<open>
  Pixel quantities are JavaScript numbers; they are modelled as reals (the offsets, paddings
  and sizes that occur here are finite). \<^verbatim>\<open>offset || 4\<close> is 4 when \<^verbatim>\<open>offset\<close> is
  \<^verbatim>\<open>undefined\<close> and also when it is 0, the one falsy real.
\<close>

definition offset_or_default :: "real option \<Rightarrow> real" where
  "offset_or_default offset = (case offset of None \<Rightarrow> 4 | Some x \<Rightarrow> if x = 0 then 4 else x)"

text \<open>
  The modifiers handed to the positioning library. \<open>ApplyMaxSize\<close> stands for the object
  whose \<^verbatim>\<open>fn\<close> is defined in the component; the boundary it carries is the one its closure
  captures.
\<close>

datatype modifier =
    Offset "real \<times> real"
  | Arrow "HTMLElement option" real
  | PreventOverflow "HTMLElement option" real
  | Flip "HTMLElement option" real
  | MaxSize "HTMLElement option" real
  | ApplyMaxSize "HTMLElement option"

record 'p Options =
  placement :: 'p
  strategy :: string
  modifiers :: "modifier list"

text \<open>The \<^verbatim>\<open>useMemo\<close> body. \<open>isContained\<close> is \<open>True\<close> when \<^verbatim>\<open>contained\<close> (of type \<^verbatim>\<open>true | undefined\<close>) is given.\<close>

definition Popover_options ::
  "real option \<Rightarrow> HTMLElement option \<Rightarrow> bool \<Rightarrow> 'p \<Rightarrow> HTMLElement option \<Rightarrow> 'p Options" where
  "Popover_options offset arrow isContained plc boundary =
     \<lparr>placement = plc,
      strategy = ''absolute'',
      modifiers =
        [Offset (0, offset_or_default offset), Arrow arrow 4] @
        (if isContained
         then [PreventOverflow boundary 8, Flip boundary 8, MaxSize boundary 8,
               ApplyMaxSize boundary]
         else [])\<rparr>"

text \<open>
  The part of the positioning library's state that \<^verbatim>\<open>applyMaxSize\<close> touches: the width
  computed by the \<^verbatim>\<open>maxSize\<close> modifier and the style object of the floating element, a
  map from property names to values. The value written is \<^verbatim>\<open>`${maxWidth}px`\<close>.
\<close>

datatype css_value = Px real | Css string

record popper_state =
  maxSize_width :: real
  styles_popper :: "string \<rightharpoonup> css_value"

definition applyMaxSize_fn :: "HTMLElement option \<Rightarrow> popper_state \<Rightarrow> popper_state" where
  "applyMaxSize_fn boundary state =
     (let width = maxSize_width state;
          maxWidth = max width
                       (real_of_int (case boundary of None \<Rightarrow> 16 | Some b \<Rightarrow> clientWidth b) - 16)
      in state\<lparr>styles_popper := (styles_popper state)(''maxWidth'' \<mapsto> Px maxWidth)\<rparr>)"

text \<open>The maximum width, in pixels, in the style object of the floating element.\<close>

definition applied_maxWidth :: "popper_state \<Rightarrow> real option" where
  "applied_maxWidth state =
     (case styles_popper state ''maxWidth'' of Some (Px m) \<Rightarrow> Some m | _ \<Rightarrow> None)"

text \<open>
  The last effect of the component, \<^verbatim>\<open>useEffect(() => { update?.() }, [update, updateTrigger])\<close>.
  \<open>update\<close> is the function the positioning library returns, absent while there is no
  positioner instance; it acts on the positioner's state \<open>'s\<close>. An effect runs after the
  first render and after every render in which one of its dependencies differs from the
  previous render's; \<open>prev\<close> holds the previous render's dependencies, \<open>None\<close> at the
  first render. The identity of the \<open>update\<close> function is its handle \<open>'u\<close>.
\<close>

definition Popover_update_effect ::
  "('u \<times> ('s \<Rightarrow> 's)) option \<Rightarrow> 's \<Rightarrow> 's" where
  "Popover_update_effect update st = (case update of None \<Rightarrow> st | Some (h, f) \<Rightarrow> f st)"

definition Popover_after_render ::
  "('u option \<times> 't) option \<Rightarrow> ('u \<times> ('s \<Rightarrow> 's)) option \<Rightarrow> 't \<Rightarrow> 's \<Rightarrow> 's" where
  "Popover_after_render prev update updateTrigger st =
     (if prev = Some (map_option fst update, updateTrigger) then st
      else Popover_update_effect update st)"

text \<open>
  What the component returns: the reference around its children and, when there is a
  boundary, a portal of the floating container into the boundary. \<open>popperStyle\<close>,
  \<open>arrowStyle\<close> and \<open>placementAttr\<close> are what the positioning library returned
  (\<^verbatim>\<open>styles.popper\<close>, \<^verbatim>\<open>styles.arrow\<close>, \<^verbatim>\<open>attributes.popper?.['data-popper-placement']\<close>);
  \<^verbatim>\<open>showArrow\<close> defaults to \<^verbatim>\<open>true\<close>.
\<close>

record ('c, 'y) popover_container =
  container_show :: bool
  container_style :: 'y
  container_content :: 'c
  container_arrow :: "(string \<times> 'y) option"

record ('c, 'y) popover_view =
  reference_children :: 'c
  floating :: "(('c, 'y) popover_container \<times> HTMLElement) option"

definition Popover_render ::
  "'c \<Rightarrow> bool \<Rightarrow> 'c \<Rightarrow> bool option \<Rightarrow> HTMLElement option \<Rightarrow> 'y \<Rightarrow> 'y \<Rightarrow> string option \<Rightarrow>
   render_error + ('c, 'y) popover_view" where
  "Popover_render content show children showArrow boundary popperStyle arrowStyle placementAttr =
     (case boundary of
        None \<Rightarrow> Inr \<lparr>reference_children = children, floating = None\<rparr>
      | Some b \<Rightarrow>
          (case createPortal
                  \<lparr>container_show = show,
                   container_style = popperStyle,
                   container_content = content,
                   container_arrow =
                     (if (case showArrow of None \<Rightarrow> True | Some a \<Rightarrow> a)
                      then Some (''arrow-'' @ (case placementAttr of None \<Rightarrow> [] | Some p \<Rightarrow> p),
                                 arrowStyle)
                      else None)\<rparr>
                  (Some b) of
             Inl err \<Rightarrow> Inl err
           | Inr portal \<Rightarrow> Inr \<lparr>reference_children = children, floating = Some portal\<rparr>))"

section \<open>Swap/Settings/RouterPreferenceToggle.tsx\<close>

text \<open>
  The store holds the value of \<^verbatim>\<open>routerPreferenceAtom\<close>; \<open>'p\<close> is the type
  \<^verbatim>\<open>RouterPreference\<close>, whose declaration is outside these sources, so its two members
  named by the component, \<^verbatim>\<open>API\<close> and \<^verbatim>\<open>CLIENT\<close>, are parameters.
  \<^verbatim>\<open>onRouterPreferenceChange\<close> is the integrator's handler, optional, acting on the
  integrator's own state \<open>'e\<close>.
\<close>

record ('p, 'e) swap_store =
  routerPreferenceAtom :: 'p
  host :: 'e

definition setRouterPreference ::
  "('p \<Rightarrow> 'e \<Rightarrow> 'e) option \<Rightarrow> 'p \<Rightarrow> ('p, 'e) swap_store \<Rightarrow> ('p, 'e) swap_store" where
  "setRouterPreference onRouterPreferenceChange update s =
     (let s1 = (case onRouterPreferenceChange of
                  None \<Rightarrow> s
                | Some h \<Rightarrow> s\<lparr>host := h update (host s)\<rparr>)
      in s1\<lparr>routerPreferenceAtom := update\<rparr>)"

text \<open>
  \<^verbatim>\<open>const [routerPreference, setRouterPreferenceBase] = useAtom(routerPreferenceAtom)\<close>: a
  render reads the value the store holds then.
\<close>

definition rendered_routerPreference :: "('p, 'e) swap_store \<Rightarrow> 'p" where
  "rendered_routerPreference s = routerPreferenceAtom s"

text \<open>
  \<^verbatim>\<open>onToggle\<close> is a closure of one render: the \<open>routerPreference\<close> it tests is the value
  that render read, a constant of the closure, while the store \<open>s\<close> it writes to is the
  store at the time of the call. Called again before the component has rendered again, it
  tests the same value again.
\<close>

definition onToggle ::
  "'p \<Rightarrow> 'p \<Rightarrow> ('p \<Rightarrow> 'e \<Rightarrow> 'e) option \<Rightarrow> 'p \<Rightarrow> ('p, 'e) swap_store \<Rightarrow> ('p, 'e) swap_store" where
  "onToggle API CLIENT onRouterPreferenceChange routerPreference s =
     (if routerPreference = API
      then setRouterPreference onRouterPreferenceChange CLIENT s
      else setRouterPreference onRouterPreferenceChange API s)"

section \<open>The life of one Dialog under its Provider\<close>

text \<open>
  The effects of \<^verbatim>\<open>Provider\<close> and \<^verbatim>\<open>Dialog\<close> act on state that outlives a render: the
  Provider's \<^verbatim>\<open>active\<close> state and the \<^verbatim>\<open>inert\<close> flag of the element its ref points to,
  the Dialog's \<^verbatim>\<open>updatePopover\<close> state, and the timers pending in the browser. The world
  below holds that state for one Provider and one Dialog instance under it, together with
  the clock of the event loop in milliseconds.

  A pending timer is its due time and its callback; the only callback the source ever
  schedules is \<^verbatim>\<open>() => setUpdatePopover(true)\<close>.
\<close>

datatype timer_callback = SetUpdatePopover bool

record world =
  now :: nat
  timers :: "(nat \<times> timer_callback) list"
  ctx_element :: "HTMLElement option"
  ctx_options :: "DialogOptions option"
  ref_current :: "HTMLElement option"
  active :: bool
  effect_dep :: "bool option"
  mounted :: bool
  updatePopover :: bool

subsection \<open>Provider\<close>

text \<open>\<^verbatim>\<open>setActive\<close>, the setter of the Provider's state.\<close>

definition setActive :: "bool \<Rightarrow> world \<Rightarrow> world" where
  "setActive b w = w\<lparr>active := b\<rparr>"

text \<open>The body of the Provider's effect: \<^verbatim>\<open>if (ref.current) { ref.current.inert = active }\<close>.\<close>

definition Provider_effect :: "world \<Rightarrow> world" where
  "Provider_effect w =
     (case ref_current w of
        None \<Rightarrow> w
      | Some el \<Rightarrow> w\<lparr>ref_current := Some (el\<lparr>inert := active w\<rparr>)\<rparr>)"

text \<open>
  The effect has the dependency list \<^verbatim>\<open>[active]\<close>: after a render it runs if \<^verbatim>\<open>active\<close>
  differs from the value it last ran with (\<open>effect_dep\<close>, \<open>None\<close> before the first run).
  State updates made while effects run are batched, so one commit follows all of them.
\<close>

definition Provider_commit :: "world \<Rightarrow> world" where
  "Provider_commit w =
     (if effect_dep w = Some (active w) then w
      else (Provider_effect w)\<lparr>effect_dep := Some (active w)\<rparr>)"

text \<open>
  The Provider mounts at time \<open>t0\<close> with its properties \<^verbatim>\<open>value\<close> and \<^verbatim>\<open>options\<close>; its
  ref is attached to the \<^verbatim>\<open>div\<close> it renders (\<open>el\<close>) before its effect runs; \<^verbatim>\<open>active\<close>
  starts as \<^verbatim>\<open>false\<close>.
\<close>

definition Provider_mount ::
  "nat \<Rightarrow> HTMLElement \<Rightarrow> HTMLElement option \<Rightarrow> DialogOptions option \<Rightarrow> world" where
  "Provider_mount t0 el val opts =
     Provider_commit
       \<lparr>now = t0, timers = [], ctx_element = val, ctx_options = opts,
        ref_current = Some el, active = False, effect_dep = None,
        mounted = False, updatePopover = False\<rparr>"

subsection \<open>Dialog\<close>

definition PopoverAnimationUpdateDelay :: nat where
  "PopoverAnimationUpdateDelay = 100"

text \<open>\<^verbatim>\<open>setTimeout\<close>: the callback becomes due \<open>delay\<close> milliseconds from now.\<close>

definition setTimeout :: "timer_callback \<Rightarrow> nat \<Rightarrow> world \<Rightarrow> world" where
  "setTimeout cb delay w = w\<lparr>timers := timers w @ [(now w + delay, cb)]\<rparr>"

text \<open>
  Mounting the Dialog: \<^verbatim>\<open>useState(false)\<close> for \<^verbatim>\<open>updatePopover\<close>, then its two mount
  effects in source order: \<^verbatim>\<open>context.setActive(true)\<close>, and the \<^verbatim>\<open>setTimeout\<close> with the
  delay \<^verbatim>\<open>TransitionDuration.Medium + PopoverAnimationUpdateDelay\<close>. The theme's constant
  \<^verbatim>\<open>TransitionDuration.Medium\<close> is declared outside these sources and is the parameter
  \<open>medium\<close>, in milliseconds.
\<close>

definition Dialog_mount :: "nat \<Rightarrow> world \<Rightarrow> world" where
  "Dialog_mount medium w =
     Provider_commit
       (setTimeout (SetUpdatePopover True) (medium + PopoverAnimationUpdateDelay)
          (setActive True (w\<lparr>mounted := True, updatePopover := False\<rparr>)))"

text \<open>
  Unmounting the Dialog runs the cleanup of the first effect, \<^verbatim>\<open>context.setActive(false)\<close>.
  The second effect returns no cleanup, so nothing else happens.
\<close>

definition Dialog_unmount :: "world \<Rightarrow> world" where
  "Dialog_unmount w = Provider_commit (setActive False (w\<lparr>mounted := False\<rparr>))"

text \<open>
  The first effect depends on \<^verbatim>\<open>[context]\<close>, and the Provider builds a new context object
  in every render. So whenever the Provider renders again under a mounted Dialog, the
  effect's cleanup and then its body run, in one batch.
\<close>

definition Dialog_context_changed :: "world \<Rightarrow> world" where
  "Dialog_context_changed w =
     (if mounted w then Provider_commit (setActive True (setActive False w)) else w)"

text \<open>
  \<^verbatim>\<open>setUpdatePopover\<close>, the setter of the Dialog's state. React drops a state update of a
  component that is no longer mounted.
\<close>

definition setUpdatePopover :: "bool \<Rightarrow> world \<Rightarrow> world" where
  "setUpdatePopover b w = (if mounted w then w\<lparr>updatePopover := b\<rparr> else w)"

fun run_callback :: "timer_callback \<Rightarrow> world \<Rightarrow> world" where
  "run_callback (SetUpdatePopover b) w = setUpdatePopover b w"

subsection \<open>The event loop\<close>

text \<open>
  The callbacks the event loop runs when the clock shows \<open>t\<close>: those of the timers due by
  then. A timer never runs before it is due.
\<close>

definition due_callbacks :: "nat \<Rightarrow> world \<Rightarrow> timer_callback list" where
  "due_callbacks t w = map snd (filter (\<lambda>(d, cb). d \<le> t) (timers w))"

definition tick :: "nat \<Rightarrow> world \<Rightarrow> world" where
  "tick n w =
     (let t = now w + n
      in fold run_callback (due_callbacks t w)
           (w\<lparr>now := t, timers := filter (\<lambda>(d, cb). \<not> d \<le> t) (timers w)\<rparr>))"

text \<open>
  What can happen to a mounted Dialog: time passes and the event loop takes a turn, the
  Provider renders again, or the Dialog is unmounted, whatever made its parent stop
  rendering it.
\<close>

datatype close_cause = EscapeKey | BackgroundClick | HeaderButton | ParentRender

datatype event = is_Tick: Tick nat | is_Rerender: Rerender | is_Unmount: Unmount close_cause

fun step :: "event \<Rightarrow> world \<Rightarrow> world" where
  "step (Tick n) w = tick n w"
| "step Rerender w = Dialog_context_changed w"
| "step (Unmount c) w = (if mounted w then Dialog_unmount w else w)"

text \<open>The worlds passed through, the first one included.\<close>

fun run :: "event list \<Rightarrow> world \<Rightarrow> world list" where
  "run [] w = [w]"
| "run (e # es) w = w # run es (step e w)"

text \<open>How often a value changes along a sequence.\<close>

fun changes :: "'a list \<Rightarrow> nat" where
  "changes (a # b # xs) = (if a = b then 0 else 1) + changes (b # xs)"
| "changes xs = 0"

text \<open>The \<^verbatim>\<open>inert\<close> flag of the element the Provider's ref points to.\<close>

definition root_inert :: "world \<Rightarrow> bool option" where
  "root_inert w = map_option inert (ref_current w)"

text \<open>
  The time that passes while the Dialog is still mounted: the durations of the ticks before
  the first unmount.
\<close>

fun duration :: "event \<Rightarrow> nat" where
  "duration (Tick n) = n"
| "duration Rerender = 0"
| "duration (Unmount c) = 0"

definition time_mounted :: "event list \<Rightarrow> nat" where
  "time_mounted es = sum_list (map duration (takeWhile (\<lambda>e. \<not> is_Unmount e) es))"

text \<open>
  The stages of the settle timer, for the proofs: the timer due at \<open>due\<close> is pending under
  a mounted Dialog whose token is still \<^verbatim>\<open>false\<close>; the timer has run and the token is
  \<^verbatim>\<open>true\<close>; the Dialog was unmounted with its token still \<^verbatim>\<open>false\<close>. And the state of
  the Provider under a mounted Dialog.
\<close>

definition pending :: "nat \<Rightarrow> world \<Rightarrow> bool" where
  "pending due w \<longleftrightarrow>
     mounted w \<and> \<not> updatePopover w \<and> timers w = [(due, SetUpdatePopover True)] \<and> now w < due"

definition settled :: "nat \<Rightarrow> world \<Rightarrow> bool" where
  "settled due w \<longleftrightarrow> updatePopover w \<and> timers w = [] \<and> due \<le> now w"

definition dropped :: "world \<Rightarrow> bool" where
  "dropped w \<longleftrightarrow> \<not> mounted w \<and> \<not> updatePopover w"

definition shielding :: "world \<Rightarrow> bool" where
  "shielding w \<longleftrightarrow>
     mounted w \<and> active w \<and> effect_dep w = Some True \<and> root_inert w = Some True"

section \<open>Claims about the exit label, the positioner options, rendering and clicks\<close>

text \<open>
  C1, as stated, fails: a slide Dialog that is page-centered is mounted to the document
  body, and its exit label is \<^verbatim>\<open>closing\<close> however many children the body has. Here the
  body has three children.
\<close>

theorem C1_page_centered_counterexample:
  "options_animationType (Some \<lparr>animationType = Some SLIDE, pageCentered = Some True\<rparr>) = Some SLIDE
   \<and> Dialog_mountPoint
        (Dialog_pageCentered (Some \<lparr>animationType = Some SLIDE, pageCentered = Some True\<rparr>) None)
        \<lparr>childElementCount = 3, clientWidth = 1280, inert = False\<rparr> None
      = Some \<lparr>childElementCount = 3, clientWidth = 1280, inert = False\<rparr>
   \<and> 1 < childElementCount \<lparr>childElementCount = 3, clientWidth = 1280, inert = False\<rparr>
   \<and> Dialog_exit_label (Some \<lparr>animationType = Some SLIDE, pageCentered = Some True\<rparr>) None
        \<lparr>childElementCount = 3, clientWidth = 1280, inert = False\<rparr> None \<noteq> ''paging''
   \<and> Dialog_exit_label (Some \<lparr>animationType = Some SLIDE, pageCentered = Some True\<rparr>) None
        \<lparr>childElementCount = 3, clientWidth = 1280, inert = False\<rparr> None = ''closing''"
  by (simp add: options_animationType_def options_pageCentered_def Dialog_pageCentered_def
      Dialog_mountPoint_def Dialog_exit_label_def getAnimatingClass_def
      SlideAnimationType_CLOSING_def SlideAnimationType_PAGING_def)

text \<open>
  C1, amended: for a Dialog whose animation kind is slide (given, or by default when none is
  given), the exit label computed when the unmount begins is \<^verbatim>\<open>closing\<close> if the Dialog is
  page-centered; otherwise it is \<^verbatim>\<open>paging\<close> if the mount root then has more than one
  child element, and \<^verbatim>\<open>closing\<close> if it has at most one or if there is no mount root.
\<close>

theorem C1_slide_exit_label:
  assumes "options_animationType opts = Some SLIDE \<or> options_animationType opts = None"
  shows "Dialog_exit_label opts forceContain body element =
           (if truthy (Dialog_pageCentered opts forceContain) then ''closing''
            else case Dialog_mountPoint (Dialog_pageCentered opts forceContain) body element of
                   None \<Rightarrow> ''closing''
                 | Some m \<Rightarrow> if 1 < childElementCount m then ''paging'' else ''closing'')"
  using assms
  by (auto simp: Dialog_exit_label_def getAnimatingClass_def Dialog_mountPoint_def
      SlideAnimationType_CLOSING_def SlideAnimationType_PAGING_def split: option.splits)

theorem C1_slide_exit_label_witness:
  "(options_animationType (Some \<lparr>animationType = Some SLIDE, pageCentered = None\<rparr>) = Some SLIDE
    \<or> options_animationType (Some \<lparr>animationType = Some SLIDE, pageCentered = None\<rparr>) = None)
   \<and> Dialog_exit_label (Some \<lparr>animationType = Some SLIDE, pageCentered = None\<rparr>) None
        \<lparr>childElementCount = 5, clientWidth = 1280, inert = False\<rparr>
        (Some \<lparr>childElementCount = 2, clientWidth = 360, inert = False\<rparr>) = ''paging''
   \<and> Dialog_exit_label (Some \<lparr>animationType = Some SLIDE, pageCentered = None\<rparr>) None
        \<lparr>childElementCount = 5, clientWidth = 1280, inert = False\<rparr>
        (Some \<lparr>childElementCount = 1, clientWidth = 360, inert = False\<rparr>) = ''closing''"
  using C1_slide_exit_label
          [of "Some \<lparr>animationType = Some SLIDE, pageCentered = None\<rparr>" None
              "\<lparr>childElementCount = 5, clientWidth = 1280, inert = False\<rparr>"
              "Some \<lparr>childElementCount = 2, clientWidth = 360, inert = False\<rparr>"]
        C1_slide_exit_label
          [of "Some \<lparr>animationType = Some SLIDE, pageCentered = None\<rparr>" None
              "\<lparr>childElementCount = 5, clientWidth = 1280, inert = False\<rparr>"
              "Some \<lparr>childElementCount = 1, clientWidth = 360, inert = False\<rparr>"]
  by (simp add: options_animationType_def options_pageCentered_def Dialog_pageCentered_def
      Dialog_mountPoint_def)

text \<open>
  C2: in contained mode the options carry the \<^verbatim>\<open>applyMaxSize\<close> modifier for the boundary,
  and whatever width the max-size computation left in the state, the maximum width that
  modifier writes is at least the boundary's \<^verbatim>\<open>clientWidth\<close> minus 16 pixels.
\<close>

theorem C2_maxWidth_at_least_clientWidth_minus_16:
  "ApplyMaxSize (Some b) \<in> set (modifiers (Popover_options offset arrow True plc (Some b)))
   \<and> (\<exists>m. applied_maxWidth (applyMaxSize_fn (Some b) state) = Some m
          \<and> real_of_int (clientWidth b) - 16 \<le> m)"
  by (simp add: Popover_options_def applied_maxWidth_def applyMaxSize_fn_def Let_def)

text \<open>
  C6: with no boundary the Popover renders its reference only, with no floating content,
  and with no mount point the Dialog renders nothing; neither raises, with or without a
  boundary or mount point; and once there is a boundary the floating content is rendered
  into it.
\<close>

theorem C6_nothing_rendered_without_target:
  assumes "Dialog_mountPoint (Dialog_pageCentered opts forceContain) body element = None"
  shows "Popover_render content shown children showArrow None popperStyle arrowStyle placementAttr
           = Inr \<lparr>reference_children = children, floating = None\<rparr>
         \<and> Dialog_render opts forceContain body element popoverRef updPopover color kids = Inr None
         \<and> \<not> isl (Popover_render content shown children showArrow boundary
                     popperStyle arrowStyle placementAttr)
         \<and> \<not> isl (Dialog_render opts' forceContain' body' element'
                     popoverRef updPopover color kids)
         \<and> (\<exists>v. Popover_render content shown children showArrow (Some b)
                    popperStyle arrowStyle placementAttr = Inr v
                \<and> map_option snd (floating v) = Some b)"
  using assms
  by (auto simp: Popover_render_def Dialog_render_def createPortal_def Let_def
      split: option.splits)

theorem C6_nothing_rendered_without_target_witness:
  "Dialog_mountPoint
     (Dialog_pageCentered (Some \<lparr>animationType = Some FADE, pageCentered = Some False\<rparr>) None)
     \<lparr>childElementCount = 2, clientWidth = 1280, inert = False\<rparr> None = None
   \<and> Popover_render ''tooltip'' True ''anchor'' None None (0::nat) 0 None
        = Inr \<lparr>reference_children = ''anchor'', floating = None\<rparr>
   \<and> Dialog_render (Some \<lparr>animationType = Some FADE, pageCentered = Some False\<rparr>) None
        \<lparr>childElementCount = 2, clientWidth = 1280, inert = False\<rparr> None
        None False ''dialog'' ''children'' = Inr None"
  using C6_nothing_rendered_without_target
          [of "Some \<lparr>animationType = Some FADE, pageCentered = Some False\<rparr>" None
              "\<lparr>childElementCount = 2, clientWidth = 1280, inert = False\<rparr>" None
              "''tooltip''" True "''anchor''" None "0::nat" 0 None
              None False "''dialog''" "''children''"]
  by (simp add: Dialog_mountPoint_def Dialog_pageCentered_def options_pageCentered_def)

text \<open>
  C7: a click on the background calls the close callback exactly when the Dialog is
  page-centered (and a callback was given); when it is not page-centered the click leaves
  the caller's state as it was, so no callback ran, and in both modes the event leaves the
  Dialog with its propagation not stopped.
\<close>

theorem C7_background_click:
  "Dialog_click OnBackground (Dialog_pageCentered opts forceContain) onClose env =
     (\<lparr>propagationStopped = False\<rparr>,
      if truthy (Dialog_pageCentered opts forceContain)
      then (case onClose of None \<Rightarrow> env | Some f \<Rightarrow> f env)
      else env)"
  by (simp add: Dialog_click_def closeOnBackgroundClick_def)

theorem C7_background_click_witness:
  "Dialog_click OnBackground
     (Dialog_pageCentered (Some \<lparr>animationType = None, pageCentered = Some True\<rparr>) None)
     (Some Suc) (0::nat) = (\<lparr>propagationStopped = False\<rparr>, 1)
   \<and> Dialog_click OnBackground
     (Dialog_pageCentered (Some \<lparr>animationType = None, pageCentered = Some True\<rparr>) (Some True))
     (Some Suc) (0::nat) = (\<lparr>propagationStopped = False\<rparr>, 0)"
  using C7_background_click
          [of "Some \<lparr>animationType = None, pageCentered = Some True\<rparr>" None "Some Suc" "0::nat"]
        C7_background_click
          [of "Some \<lparr>animationType = None, pageCentered = Some True\<rparr>" "Some True" "Some Suc" "0::nat"]
  by (simp add: Dialog_pageCentered_def options_pageCentered_def)

text \<open>C8: with no offset given, the offset modifier is \<^verbatim>\<open>[0, 4]\<close>: 4 pixels.\<close>

theorem C8_default_offset:
  "offset_or_default None = 4
   \<and> hd (modifiers (Popover_options None arrow isContained plc boundary)) = Offset (0, 4)"
  by (simp add: offset_or_default_def Popover_options_def)

text \<open>
  C9: an explicit offset of 0 gives the same options, and so the same applied offset of 4
  pixels, as no offset.
\<close>

theorem C9_zero_offset_is_default:
  "Popover_options (Some 0) arrow isContained plc boundary
     = Popover_options None arrow isContained plc boundary
   \<and> hd (modifiers (Popover_options (Some 0) arrow isContained plc boundary)) = Offset (0, 4)"
  by (simp add: offset_or_default_def Popover_options_def)

text \<open>
  C10: whatever the current preference (the value the component read at its render),
  \<^verbatim>\<open>onToggle\<close> stores \<^verbatim>\<open>CLIENT\<close> if that value is \<^verbatim>\<open>API\<close> and \<^verbatim>\<open>API\<close> otherwise, and the
  handler, when there is one, is applied once, to that same new value; nothing else
  changes. For the closure of a render of the store as it is, the value tested is the
  store's.
\<close>

theorem C10_onToggle:
  "onToggle API CLIENT onRouterPreferenceChange routerPreference s =
     (let new = (if routerPreference = API then CLIENT else API)
      in s\<lparr>routerPreferenceAtom := new,
           host := (case onRouterPreferenceChange of
                      None \<Rightarrow> host s
                    | Some h \<Rightarrow> h new (host s))\<rparr>)
   \<and> onToggle API CLIENT onRouterPreferenceChange (rendered_routerPreference s) s =
     (let new = (if routerPreferenceAtom s = API then CLIENT else API)
      in s\<lparr>routerPreferenceAtom := new,
           host := (case onRouterPreferenceChange of
                      None \<Rightarrow> host s
                    | Some h \<Rightarrow> h new (host s))\<rparr>)"
  by (simp add: onToggle_def setRouterPreference_def rendered_routerPreference_def Let_def
      split: option.splits)

theorem C10_onToggle_witness:
  "onToggle ''api'' ''client'' (Some (\<lambda>p calls. calls @ [p]))
     (rendered_routerPreference \<lparr>routerPreferenceAtom = ''api'', host = []\<rparr>)
     \<lparr>routerPreferenceAtom = ''api'', host = []\<rparr>
     = \<lparr>routerPreferenceAtom = ''client'', host = [''client'']\<rparr>
   \<and> onToggle ''api'' ''client'' (Some (\<lambda>p calls. calls @ [p]))
     (rendered_routerPreference \<lparr>routerPreferenceAtom = ''client'', host = []\<rparr>)
     \<lparr>routerPreferenceAtom = ''client'', host = []\<rparr>
     = \<lparr>routerPreferenceAtom = ''api'', host = [''api'']\<rparr>
   \<and> onToggle ''api'' ''client'' (Some (\<lambda>p calls. calls @ [p])) ''api''
     \<lparr>routerPreferenceAtom = ''client'', host = [''client'']\<rparr>
     = \<lparr>routerPreferenceAtom = ''client'', host = [''client'', ''client'']\<rparr>"
  using C10_onToggle [of "''api''" "''client''" "Some (\<lambda>p calls. calls @ [p])" "''api''"
                         "\<lparr>routerPreferenceAtom = ''api'', host = []\<rparr>"]
        C10_onToggle [of "''api''" "''client''" "Some (\<lambda>p calls. calls @ [p])" "''api''"
                         "\<lparr>routerPreferenceAtom = ''client'', host = []\<rparr>"]
        C10_onToggle [of "''api''" "''client''" "Some (\<lambda>p calls. calls @ [p])" "''api''"
                         "\<lparr>routerPreferenceAtom = ''client'', host = [''client'']\<rparr>"]
  by (simp add: Let_def rendered_routerPreference_def)

section \<open>Lemmas about the life of a Dialog\<close>

lemma run_nonempty: "run es w \<noteq> []"
  by (cases es) simp_all

lemma hd_run: "hd (run es w) = w"
  by (cases es) simp_all

lemma changes_Cons: "xs \<noteq> [] \<Longrightarrow> changes (a # xs) = (if a = hd xs then 0 else 1) + changes xs"
  by (cases xs) simp_all

lemma changes_run_Cons:
  "changes (a # map f (run es w)) = (if a = f w then 0 else 1) + changes (map f (run es w))"
  using changes_Cons [of "map f (run es w)" a]
  by (simp add: run_nonempty hd_map hd_run)

lemma fold_unmounted: "\<not> mounted w \<Longrightarrow> fold run_callback cbs w = w"
proof (induction cbs)
  case Nil
  then show ?case by simp
next
  case (Cons cb cbs)
  then show ?case by (cases cb) (simp add: setUpdatePopover_def)
qed

lemma Provider_commit_keeps:
  "now (Provider_commit w) = now w"
  "timers (Provider_commit w) = timers w"
  "mounted (Provider_commit w) = mounted w"
  "updatePopover (Provider_commit w) = updatePopover w"
  "active (Provider_commit w) = active w"
  by (simp_all add: Provider_commit_def Provider_effect_def split: option.splits)

subsection \<open>The token\<close>

lemma step_dropped: "dropped w \<Longrightarrow> dropped (step e w)"
  by (cases e)
    (simp_all add: dropped_def tick_def Let_def fold_unmounted Dialog_context_changed_def)

lemma step_settled: "settled due w \<Longrightarrow> settled due (step e w)"
  by (cases e)
    (simp_all add: settled_def tick_def Let_def due_callbacks_def Dialog_context_changed_def
      Dialog_unmount_def Provider_commit_keeps setActive_def)

lemma tick_pending_late:
  "pending due w \<Longrightarrow> due \<le> now w + n \<Longrightarrow> settled due (tick n w)"
  by (simp add: pending_def settled_def tick_def Let_def due_callbacks_def setUpdatePopover_def)

lemma tick_pending_early:
  "pending due w \<Longrightarrow> now w + n < due \<Longrightarrow> pending due (tick n w)"
  by (simp add: pending_def tick_def Let_def due_callbacks_def)

lemma rerender_pending: "pending due w \<Longrightarrow> pending due (Dialog_context_changed w)"
  by (simp add: pending_def Dialog_context_changed_def Provider_commit_keeps setActive_def)

lemma unmount_pending: "pending due w \<Longrightarrow> dropped (Dialog_unmount w)"
  by (simp add: pending_def dropped_def Dialog_unmount_def Provider_commit_keeps setActive_def)

lemma run_dropped:
  "dropped w \<Longrightarrow> list_all (\<lambda>v. \<not> updatePopover v) (run es w)"
proof (induction es arbitrary: w)
  case Nil
  then show ?case by (simp add: dropped_def)
next
  case (Cons e es)
  from Cons.prems have "dropped (step e w)" by (rule step_dropped)
  with Cons.IH Cons.prems show ?case by (simp add: dropped_def)
qed

lemma run_settled:
  "settled due w \<Longrightarrow> list_all (\<lambda>v. updatePopover v \<and> due \<le> now v) (run es w)"
proof (induction es arbitrary: w)
  case Nil
  then show ?case by (simp add: settled_def)
next
  case (Cons e es)
  from Cons.prems have "settled due (step e w)" by (rule step_settled)
  with Cons.IH Cons.prems show ?case by (simp add: settled_def)
qed

lemma changes_all_False:
  "list_all (\<lambda>v. \<not> updatePopover v) ws \<Longrightarrow> changes (map updatePopover ws) = 0"
  by (induction ws rule: changes.induct) auto

lemma changes_all_True:
  "list_all (\<lambda>v. updatePopover v \<and> P v) ws \<Longrightarrow> changes (map updatePopover ws) = 0"
  by (induction ws rule: changes.induct) auto

lemma changes_pending:
  "pending due w \<Longrightarrow>
   changes (map updatePopover (run es w)) = (if due - now w \<le> time_mounted es then 1 else 0)"
proof (induction es arbitrary: w)
  case Nil
  then show ?case by (simp add: pending_def time_mounted_def)
next
  case (Cons e es)
  show ?case
  proof (cases e)
    case (Tick n)
    show ?thesis
    proof (cases "due \<le> now w + n")
      case True
      with Cons.prems have s: "settled due (tick n w)" by (simp add: tick_pending_late)
      have "changes (map updatePopover (run es (tick n w))) = 0"
        by (rule changes_all_True [OF run_settled [OF s]])
      moreover have "updatePopover (tick n w)" using s by (simp add: settled_def)
      moreover have "\<not> updatePopover w" using Cons.prems by (simp add: pending_def)
      moreover have "due - now w \<le> time_mounted (e # es)"
        using True Tick by (simp add: time_mounted_def)
      ultimately show ?thesis using Tick by (simp add: changes_run_Cons)
    next
      case False
      with Cons.prems have p: "pending due (tick n w)" by (simp add: tick_pending_early)
      have n: "now (tick n w) = now w + n"
        using Cons.prems False
        by (simp add: pending_def tick_def Let_def due_callbacks_def)
      have "changes (map updatePopover (run es (tick n w)))
              = (if due - now (tick n w) \<le> time_mounted es then 1 else 0)"
        using p by (rule Cons.IH)
      moreover have "\<not> updatePopover (tick n w)" "\<not> updatePopover w"
        using p Cons.prems by (simp_all add: pending_def)
      moreover have "due - now w \<le> time_mounted (e # es) \<longleftrightarrow> due - (now w + n) \<le> time_mounted es"
        using False Tick by (auto simp: time_mounted_def)
      ultimately show ?thesis using Tick n by (simp add: changes_run_Cons)
    qed
  next
    case Rerender
    from Cons.prems have p: "pending due (Dialog_context_changed w)" by (rule rerender_pending)
    have "now (Dialog_context_changed w) = now w"
      by (simp add: Dialog_context_changed_def Provider_commit_keeps setActive_def)
    moreover have "changes (map updatePopover (run es (Dialog_context_changed w)))
              = (if due - now (Dialog_context_changed w) \<le> time_mounted es then 1 else 0)"
      using p by (rule Cons.IH)
    moreover have "\<not> updatePopover (Dialog_context_changed w)" "\<not> updatePopover w"
      using p Cons.prems by (simp_all add: pending_def)
    moreover have "time_mounted (e # es) = time_mounted es"
      using Rerender by (simp add: time_mounted_def)
    ultimately show ?thesis using Rerender by (simp add: changes_run_Cons)
  next
    case (Unmount c)
    from Cons.prems have d: "dropped (Dialog_unmount w)" by (rule unmount_pending)
    have "changes (map updatePopover (run es (Dialog_unmount w))) = 0"
      by (rule changes_all_False [OF run_dropped [OF d]])
    moreover have "\<not> updatePopover (Dialog_unmount w)" "\<not> updatePopover w" "mounted w" "now w < due"
      using d Cons.prems by (simp_all add: dropped_def pending_def)
    moreover have "time_mounted (e # es) = 0"
      using Unmount by (simp add: time_mounted_def)
    ultimately show ?thesis using Unmount by (simp add: changes_run_Cons)
  qed
qed

lemma run_pending_time:
  "pending due w \<Longrightarrow> list_all (\<lambda>v. updatePopover v \<longrightarrow> due \<le> now v) (run es w)"
proof (induction es arbitrary: w)
  case Nil
  then show ?case by (simp add: pending_def)
next
  case (Cons e es)
  have here: "\<not> updatePopover w" using Cons.prems by (simp add: pending_def)
  have "list_all (\<lambda>v. updatePopover v \<longrightarrow> due \<le> now v) (run es (step e w))"
  proof (cases e)
    case (Tick n)
    show ?thesis
    proof (cases "due \<le> now w + n")
      case True
      with Cons.prems have "settled due (step e w)" using Tick by (simp add: tick_pending_late)
      then have "list_all (\<lambda>v. updatePopover v \<and> due \<le> now v) (run es (step e w))"
        by (rule run_settled)
      then show ?thesis by (simp add: list_all_iff)
    next
      case False
      with Cons.prems have "pending due (step e w)" using Tick by (simp add: tick_pending_early)
      then show ?thesis by (rule Cons.IH)
    qed
  next
    case Rerender
    with Cons.prems have "pending due (step e w)" by (simp add: rerender_pending)
    then show ?thesis by (rule Cons.IH)
  next
    case (Unmount c)
    moreover from Cons.prems have "mounted w" by (simp add: pending_def)
    moreover from Cons.prems have "dropped (Dialog_unmount w)" by (rule unmount_pending)
    ultimately have "dropped (step e w)" by simp
    then have "list_all (\<lambda>v. \<not> updatePopover v) (run es (step e w))" by (rule run_dropped)
    then show ?thesis by (simp add: list_all_iff)
  qed
  with here show ?case by simp
qed

lemma Dialog_mount_pending:
  "pending (t0 + medium + PopoverAnimationUpdateDelay)
     (Dialog_mount medium (Provider_mount t0 el val opts))"
  by (simp add: pending_def Dialog_mount_def Provider_mount_def Provider_commit_keeps
      setTimeout_def setActive_def PopoverAnimationUpdateDelay_def)

lemma now_Dialog_mount: "now (Dialog_mount medium (Provider_mount t0 el val opts)) = t0"
  by (simp add: Dialog_mount_def Provider_mount_def Provider_commit_keeps
      setTimeout_def setActive_def)

lemma last_run_Cons: "last (run (e # es) w) = last (run es (step e w))"
  by (simp add: run_nonempty)

lemma last_run_pending:
  "pending due w \<Longrightarrow> list_all (\<lambda>e. \<not> is_Unmount e) es \<Longrightarrow> time_mounted es < due - now w \<Longrightarrow>
   pending due (last (run es w))"
proof (induction es arbitrary: w)
  case Nil
  then show ?case by simp
next
  case (Cons e es)
  show ?case
  proof (cases e)
    case (Tick n)
    have t: "time_mounted (e # es) = n + time_mounted es"
      using Tick by (simp add: time_mounted_def)
    with Cons.prems have early: "now w + n < due" by simp
    with Cons.prems have p: "pending due (tick n w)" by (simp add: tick_pending_early)
    have "now (tick n w) = now w + n"
      using Cons.prems early by (simp add: pending_def tick_def Let_def due_callbacks_def)
    with t Cons.prems have "time_mounted es < due - now (tick n w)" by simp
    with p Cons.prems have "pending due (last (run es (tick n w)))" by (simp add: Cons.IH)
    then show ?thesis using Tick by (simp add: run_nonempty)
  next
    case Rerender
    have "time_mounted (e # es) = time_mounted es"
      using Rerender by (simp add: time_mounted_def)
    moreover have "now (Dialog_context_changed w) = now w"
      by (simp add: Dialog_context_changed_def Provider_commit_keeps setActive_def)
    moreover from Cons.prems have "pending due (Dialog_context_changed w)"
      by (simp add: rerender_pending)
    ultimately have "pending due (last (run es (Dialog_context_changed w)))"
      using Cons.prems by (simp add: Cons.IH)
    then show ?thesis using Rerender by (simp add: run_nonempty)
  next
    case (Unmount c)
    with Cons.prems show ?thesis by simp
  qed
qed

subsection \<open>The inert flag\<close>

lemma Provider_mount_inert: "root_inert (Provider_mount t0 el val opts) = Some False"
  by (simp add: root_inert_def Provider_mount_def Provider_commit_def Provider_effect_def)

lemma Dialog_mount_shielding: "shielding (Dialog_mount medium (Provider_mount t0 el val opts))"
  by (simp add: shielding_def root_inert_def Dialog_mount_def Provider_mount_def
      Provider_commit_def Provider_effect_def setTimeout_def setActive_def)

lemma fold_callbacks_keeps:
  "mounted (fold run_callback cbs w) = mounted w
   \<and> active (fold run_callback cbs w) = active w
   \<and> effect_dep (fold run_callback cbs w) = effect_dep w
   \<and> ref_current (fold run_callback cbs w) = ref_current w"
proof (induction cbs arbitrary: w)
  case Nil
  then show ?case by simp
next
  case (Cons cb cbs)
  then show ?case by (cases cb) (simp add: setUpdatePopover_def)
qed

lemma tick_shielding: "shielding w \<Longrightarrow> shielding (tick n w)"
  by (simp add: shielding_def root_inert_def tick_def Let_def fold_callbacks_keeps)

lemma rerender_shielding: "shielding w \<Longrightarrow> shielding (Dialog_context_changed w)"
  by (simp add: shielding_def root_inert_def Dialog_context_changed_def Provider_commit_def
      setActive_def)

lemma unmount_shielding: "shielding w \<Longrightarrow> root_inert (step (Unmount c) w) = Some False"
  by (auto simp: shielding_def root_inert_def Dialog_unmount_def Provider_commit_def
      Provider_effect_def setActive_def split: option.splits)

lemma run_shielding:
  "shielding w \<Longrightarrow> list_all (\<lambda>e. \<not> is_Unmount e) es \<Longrightarrow>
   list_all shielding (run es w) \<and> shielding (last (run es w))"
proof (induction es arbitrary: w)
  case Nil
  then show ?case by simp
next
  case (Cons e es)
  have "shielding (step e w)"
  proof (cases e)
    case (Tick n)
    with Cons.prems show ?thesis by (simp add: tick_shielding)
  next
    case Rerender
    with Cons.prems show ?thesis by (simp add: rerender_shielding)
  next
    case (Unmount c)
    with Cons.prems show ?thesis by simp
  qed
  with Cons.IH [of "step e w"] Cons.prems show ?case by (simp add: run_nonempty)
qed

section \<open>Claims about the life of a Dialog\<close>

text \<open>
  C3: before a Dialog mounts the background root is not inert; from the mount on, through
  every turn of the event loop and every further render, the root's inert flag is true; and
  the unmount sets it to false. This holds for every animation kind and page-centering
  option of the Provider (\<open>opts\<close>) and whatever caused the unmount (\<open>c\<close>).
\<close>

theorem C3_background_inert_while_mounted:
  assumes "list_all (\<lambda>e. \<not> is_Unmount e) es"
  shows "root_inert (Provider_mount t0 el val opts) = Some False
         \<and> list_all (\<lambda>w. root_inert w = Some True)
             (run es (Dialog_mount medium (Provider_mount t0 el val opts)))
         \<and> root_inert
             (step (Unmount c) (last (run es (Dialog_mount medium (Provider_mount t0 el val opts)))))
           = Some False"
proof -
  let ?w0 = "Dialog_mount medium (Provider_mount t0 el val opts)"
  have r: "list_all shielding (run es ?w0) \<and> shielding (last (run es ?w0))"
    using Dialog_mount_shielding assms by (rule run_shielding)
  then have "list_all (\<lambda>w. root_inert w = Some True) (run es ?w0)"
    by (simp add: list_all_iff shielding_def)
  moreover from r have "shielding (last (run es ?w0))" by simp
  then have "root_inert (step (Unmount c) (last (run es ?w0))) = Some False"
    by (rule unmount_shielding)
  ultimately show ?thesis by (simp add: Provider_mount_inert)
qed

theorem C3_background_inert_while_mounted_witness:
  "list_all (\<lambda>e. \<not> is_Unmount e) [Tick 50, Rerender, Tick 400]
   \<and> root_inert
       (Provider_mount 0 \<lparr>childElementCount = 1, clientWidth = 360, inert = False\<rparr> None
          (Some \<lparr>animationType = Some FADE, pageCentered = None\<rparr>)) = Some False
   \<and> list_all (\<lambda>w. root_inert w = Some True)
       (run [Tick 50, Rerender, Tick 400]
          (Dialog_mount 250
             (Provider_mount 0 \<lparr>childElementCount = 1, clientWidth = 360, inert = False\<rparr> None
                (Some \<lparr>animationType = Some FADE, pageCentered = None\<rparr>))))
   \<and> root_inert
       (step (Unmount BackgroundClick)
          (last (run [Tick 50, Rerender, Tick 400]
             (Dialog_mount 250
                (Provider_mount 0 \<lparr>childElementCount = 1, clientWidth = 360, inert = False\<rparr> None
                   (Some \<lparr>animationType = Some FADE, pageCentered = None\<rparr>))))))
     = Some False"
proof -
  have h: "list_all (\<lambda>e. \<not> is_Unmount e) [Tick 50, Rerender, Tick 400]" by simp
  show ?thesis
    using h C3_background_inert_while_mounted
               [OF h, of 0 "\<lparr>childElementCount = 1, clientWidth = 360, inert = False\<rparr>" None
                  "Some \<lparr>animationType = Some FADE, pageCentered = None\<rparr>" 250 BackgroundClick]
    by blast
qed

text \<open>
  C4, as stated, fails: a Dialog that is unmounted before its settle timer runs never
  changes its token, however long one waits. Here the theme's medium duration is 250 ms,
  so the timer is due 350 ms after the mount; the Dialog is closed with the Escape key
  120 ms after the mount, and then a second passes.
\<close>

theorem C4_closed_early_counterexample:
  "changes (map updatePopover
     (run [Tick 120, Unmount EscapeKey, Tick 1000]
        (Dialog_mount 250
           (Provider_mount 0 \<lparr>childElementCount = 1, clientWidth = 360, inert = False\<rparr> None None))))
   = 0"
  by (simp add: Dialog_mount_def Provider_mount_def Provider_commit_def Provider_effect_def
      setTimeout_def setActive_def PopoverAnimationUpdateDelay_def Dialog_unmount_def
      tick_def due_callbacks_def setUpdatePopover_def Let_def)

text \<open>
  C4, amended: the token of a Dialog changes exactly once if the Dialog stays mounted
  until the event loop reaches the delay (the time that passes while it is mounted is at
  least \<^verbatim>\<open>TransitionDuration.Medium\<close> + 100 ms), and never otherwise; whenever the token is
  \<^verbatim>\<open>true\<close>, at least that delay has passed since the mount at \<open>t0\<close>; and when the token a
  Popover reads differs from the one of its previous render, its effect calls the
  positioner's update function, if there is one.
\<close>

theorem C4_token_changes_once_if_still_mounted:
  "changes (map updatePopover (run es (Dialog_mount medium (Provider_mount t0 el val opts))))
     = (if medium + 100 \<le> time_mounted es then 1 else 0)
   \<and> list_all (\<lambda>w. updatePopover w \<longrightarrow> t0 + medium + 100 \<le> now w)
       (run es (Dialog_mount medium (Provider_mount t0 el val opts)))
   \<and> (trigger' \<noteq> trigger \<longrightarrow>
        Popover_after_render (Some (deps, trigger)) update trigger' st
          = (case update of None \<Rightarrow> st | Some (h, f) \<Rightarrow> f st))"
proof -
  let ?w0 = "Dialog_mount medium (Provider_mount t0 el val opts)"
  have p: "pending (t0 + medium + PopoverAnimationUpdateDelay) ?w0"
    by (rule Dialog_mount_pending)
  have "changes (map updatePopover (run es ?w0))
          = (if t0 + medium + PopoverAnimationUpdateDelay - now ?w0 \<le> time_mounted es then 1 else 0)"
    using p by (rule changes_pending)
  then have a: "changes (map updatePopover (run es ?w0))
          = (if medium + 100 \<le> time_mounted es then 1 else 0)"
    by (simp add: now_Dialog_mount PopoverAnimationUpdateDelay_def)
  have "list_all (\<lambda>w. updatePopover w \<longrightarrow> t0 + medium + PopoverAnimationUpdateDelay \<le> now w)
          (run es ?w0)"
    using p by (rule run_pending_time)
  then have b: "list_all (\<lambda>w. updatePopover w \<longrightarrow> t0 + medium + 100 \<le> now w) (run es ?w0)"
    by (simp add: PopoverAnimationUpdateDelay_def)
  have c: "trigger' \<noteq> trigger \<longrightarrow>
        Popover_after_render (Some (deps, trigger)) update trigger' st
          = (case update of None \<Rightarrow> st | Some (h, f) \<Rightarrow> f st)"
    by (simp add: Popover_after_render_def Popover_update_effect_def)
  from a b c show ?thesis by blast
qed

theorem C4_token_changes_once_if_still_mounted_witness:
  "changes (map updatePopover
     (run [Tick 200, Rerender, Tick 200, Tick 5]
        (Dialog_mount 250
           (Provider_mount 0 \<lparr>childElementCount = 1, clientWidth = 360, inert = False\<rparr> None None))))
   = 1
   \<and> list_all (\<lambda>w. updatePopover w \<longrightarrow> 0 + 250 + 100 \<le> now w)
     (run [Tick 200, Rerender, Tick 200, Tick 5]
        (Dialog_mount 250
           (Provider_mount 0 \<lparr>childElementCount = 1, clientWidth = 360, inert = False\<rparr> None None)))
   \<and> map (\<lambda>w. (now w, updatePopover w))
     (run [Tick 200, Rerender, Tick 200, Tick 5]
        (Dialog_mount 250
           (Provider_mount 0 \<lparr>childElementCount = 1, clientWidth = 360, inert = False\<rparr> None None)))
     = [(0, False), (200, False), (200, False), (400, True), (405, True)]
   \<and> Popover_after_render (Some (Some ''update'', False)) (Some (''update'', Suc)) True (0::nat) = 1"
proof -
  have "map (\<lambda>w. (now w, updatePopover w))
     (run [Tick 200, Rerender, Tick 200, Tick 5]
        (Dialog_mount 250
           (Provider_mount 0 \<lparr>childElementCount = 1, clientWidth = 360, inert = False\<rparr> None None)))
     = [(0, False), (200, False), (200, False), (400, True), (405, True)]"
    by (simp add: Dialog_mount_def Provider_mount_def Provider_commit_def Provider_effect_def
        setTimeout_def setActive_def PopoverAnimationUpdateDelay_def Dialog_context_changed_def
        tick_def due_callbacks_def setUpdatePopover_def Let_def)
  then show ?thesis
    using C4_token_changes_once_if_still_mounted
            [of "[Tick 200, Rerender, Tick 200, Tick 5]" 250 0
                "\<lparr>childElementCount = 1, clientWidth = 360, inert = False\<rparr>" None None
                True False "Some ''update''" "Some (''update'', Suc)" "0::nat"]
    by (simp add: time_mounted_def)
qed

text \<open>
  C5, as stated, fails: after an unmount that comes before the timer runs, the timer is
  still pending, and the event loop runs its callback when it is due, at 350 ms here.
\<close>

theorem C5_timer_not_cancelled_counterexample:
  "\<not> mounted
       (step (Unmount EscapeKey)
          (Dialog_mount 250
             (Provider_mount 0 \<lparr>childElementCount = 1, clientWidth = 360, inert = False\<rparr> None None)))
   \<and> timers
       (step (Unmount EscapeKey)
          (Dialog_mount 250
             (Provider_mount 0 \<lparr>childElementCount = 1, clientWidth = 360, inert = False\<rparr> None None)))
     = [(350, SetUpdatePopover True)]
   \<and> due_callbacks 350
       (step (Unmount EscapeKey)
          (Dialog_mount 250
             (Provider_mount 0 \<lparr>childElementCount = 1, clientWidth = 360, inert = False\<rparr> None None)))
     = [SetUpdatePopover True]"
  by (simp add: Dialog_mount_def Provider_mount_def Provider_commit_def Provider_effect_def
      setTimeout_def setActive_def PopoverAnimationUpdateDelay_def Dialog_unmount_def
      due_callbacks_def)

text \<open>
  C5, amended: the settle timer is not cancelled by the unmount. When the Dialog unmounts
  before the timer has run (less than the delay has passed while it was mounted), the
  timer is still pending afterwards; the event loop runs its callback at any turn from the
  due time on and not before; and that turn changes nothing but the clock and the timer
  queue: the state update of the callback is dropped and the token stays \<^verbatim>\<open>false\<close>.
\<close>

theorem C5_timer_survives_unmount:
  assumes "list_all (\<lambda>e. \<not> is_Unmount e) es"
    and "time_mounted es < medium + 100"
    and "w = step (Unmount c) (last (run es (Dialog_mount medium (Provider_mount t0 el val opts))))"
  shows "\<not> mounted w \<and> \<not> updatePopover w
         \<and> timers w = [(t0 + medium + 100, SetUpdatePopover True)]
         \<and> due_callbacks t w = (if t0 + medium + 100 \<le> t then [SetUpdatePopover True] else [])
         \<and> tick n w = w\<lparr>now := now w + n,
                         timers := (if t0 + medium + 100 \<le> now w + n then [] else timers w)\<rparr>"
proof -
  let ?w0 = "Dialog_mount medium (Provider_mount t0 el val opts)"
  let ?due = "t0 + medium + PopoverAnimationUpdateDelay"
  have "pending ?due ?w0" by (rule Dialog_mount_pending)
  moreover have "time_mounted es < ?due - now ?w0"
    using assms(2) by (simp add: now_Dialog_mount PopoverAnimationUpdateDelay_def)
  ultimately have "pending ?due (last (run es ?w0))"
    using assms(1) by (simp add: last_run_pending)
  then have p: "pending (t0 + medium + 100) (last (run es ?w0))"
    by (simp add: PopoverAnimationUpdateDelay_def)
  then have w: "w = Dialog_unmount (last (run es ?w0))"
    using assms(3) by (simp add: pending_def)
  have m: "\<not> mounted w" "\<not> updatePopover w"
    using unmount_pending [OF p] w by (simp_all add: dropped_def)
  have t: "timers w = [(t0 + medium + 100, SetUpdatePopover True)]"
    using p w by (simp add: pending_def Dialog_unmount_def Provider_commit_keeps setActive_def)
  have d: "due_callbacks t w = (if t0 + medium + 100 \<le> t then [SetUpdatePopover True] else [])"
    using t by (simp add: due_callbacks_def)
  have "tick n w = w\<lparr>now := now w + n,
                     timers := (if t0 + medium + 100 \<le> now w + n then [] else timers w)\<rparr>"
    using t m by (simp add: tick_def Let_def fold_unmounted)
  with m t d show ?thesis by blast
qed

theorem C5_timer_survives_unmount_witness:
  "list_all (\<lambda>e. \<not> is_Unmount e) [Tick 120, Rerender]
   \<and> time_mounted [Tick 120, Rerender] < 250 + 100
   \<and> timers
       (step (Unmount HeaderButton)
          (last (run [Tick 120, Rerender]
             (Dialog_mount 250
                (Provider_mount 0 \<lparr>childElementCount = 1, clientWidth = 360, inert = False\<rparr>
                   None None)))))
     = [(350, SetUpdatePopover True)]
   \<and> due_callbacks 349
       (step (Unmount HeaderButton)
          (last (run [Tick 120, Rerender]
             (Dialog_mount 250
                (Provider_mount 0 \<lparr>childElementCount = 1, clientWidth = 360, inert = False\<rparr>
                   None None)))))
     = []
   \<and> due_callbacks 350
       (step (Unmount HeaderButton)
          (last (run [Tick 120, Rerender]
             (Dialog_mount 250
                (Provider_mount 0 \<lparr>childElementCount = 1, clientWidth = 360, inert = False\<rparr>
                   None None)))))
     = [SetUpdatePopover True]"
proof -
  have h1: "list_all (\<lambda>e. \<not> is_Unmount e) [Tick 120, Rerender]" by simp
  have h2: "time_mounted [Tick 120, Rerender] < 250 + 100" by (simp add: time_mounted_def)
  show ?thesis
    using h1 h2
      C5_timer_survives_unmount [OF h1 h2 refl, of HeaderButton 0
        "\<lparr>childElementCount = 1, clientWidth = 360, inert = False\<rparr>" None None 349 0]
      C5_timer_survives_unmount [OF h1 h2 refl, of HeaderButton 0
        "\<lparr>childElementCount = 1, clientWidth = 360, inert = False\<rparr>" None None 350 0]
    by simp
qed

end
